theory Spec2Isabelle
  imports Complex_Main
begin

section \<open>The loading screen subsystem\<close>

text \<open>
  A shallow embedding of \<^verbatim>\<open>ULoadingScreenSubsystem\<close> (LoadingScreenSubsystem.h/.cpp) and
  of \<^verbatim>\<open>ULoadingScreenSettings\<close> (LoadingScreenSettings.h).

  Conventions of the embedding:
  \<^item> the member variables of the subsystem are the fields of one record, threaded through
    every member function;
  \<^item> everything a member function reads from the engine (the settings object, the world
    context of the game instance, \<^verbatim>\<open>FPlatformTime::Seconds()\<close>, \<^verbatim>\<open>GIsEditor\<close>, ...) is a
    field of a record \<open>engine\<close> that is passed to the function: one value of that record is
    what the engine answers during one call;
  \<^item> everything a member function does to the outside (delegate broadcasts, log lines,
    calls on the viewport client and the world settings) is appended, in program order, to
    a list of \<open>effect\<close>s that the function returns next to the new state;
  \<^item> a \<^verbatim>\<open>double\<close> or \<^verbatim>\<open>float\<close> value is the real number it denotes (no NaN, no infinity).
    Comparisons of such values are exact. The subtraction of two doubles rounds, and so
    does the narrowing of a double to a float: both are functions the engine record
    supplies (\<open>DoubleMinus\<close>, \<open>FloatOfDouble\<close>), and nothing is assumed about them. The
    hold time passed to \<^verbatim>\<open>OnHoldTimeTriggeredDelegate\<close> is a float widened to a double, or
    zero, so narrowing it back changes nothing;
  \<^item> \<^verbatim>\<open>FPlatformTime::Seconds()\<close> is the platform's running counter of seconds; its readings
    are positive. Where a property depends on that, it is a stated hypothesis;
  \<^item> the game instance and its viewport client exist (the C++ dereferences both
    unchecked).
\<close>

subsection \<open>Settings (LoadingScreenSettings.h)\<close>

record ULoadingScreenSettings =
  LoadingScreenWidgetPath :: string
  ZOrder :: int
  HoldLoadingScreenAdditionalSecs :: real
  bForceDisplayLoadingScreen :: bool
  bLogLoadingScreenReason :: bool
  bShowLoadingScreenAdditionalSecsInEditor :: bool

text \<open>The defaults of the class declaration.\<close>

definition DefaultSettings :: ULoadingScreenSettings where
  "DefaultSettings =
     \<lparr> LoadingScreenWidgetPath = [], ZOrder = 10000, HoldLoadingScreenAdditionalSecs = 2,
       bForceDisplayLoadingScreen = False, bLogLoadingScreenReason = False,
       bShowLoadingScreenAdditionalSecsInEditor = False \<rparr>"

subsection \<open>What the engine answers during one call\<close>

datatype UWorld = UWorld (HasBegunPlay: bool)

datatype FWorldContext = FWorldContext (World: "UWorld option")

record engine =
  Settings :: ULoadingScreenSettings
    \<comment> \<open>\<^verbatim>\<open>GetDefault<ULoadingScreenSettings>()\<close>\<close>
  GetWorldContext :: "FWorldContext option"
    \<comment> \<open>\<^verbatim>\<open>GetGameInstance()->GetWorldContext()\<close>, \<open>None\<close> for a null pointer\<close>
  Seconds :: real
    \<comment> \<open>\<^verbatim>\<open>FPlatformTime::Seconds()\<close>\<close>
  GIsEditor :: bool
  IsInitialized :: bool
    \<comment> \<open>\<^verbatim>\<open>GEngine->IsInitialized()\<close>\<close>
  CreateWidgetInstance :: bool
    \<comment> \<open>whether \<^verbatim>\<open>UUserWidget::CreateWidgetInstance\<close> returns a widget\<close>
  ViewportWorldSettings :: bool
    \<comment> \<open>whether the viewport client has a world and that world has world settings\<close>
  Printf_2f :: "real \<Rightarrow> string"
    \<comment> \<open>the text \<^verbatim>\<open>FString::Printf\<close> produces for the conversion \<^verbatim>\<open>%.2f\<close>\<close>
  DoubleMinus :: "real \<Rightarrow> real \<Rightarrow> real"
    \<comment> \<open>the subtraction of two \<^verbatim>\<open>double\<close>s, rounded as the machine rounds it\<close>
  FloatOfDouble :: "real \<Rightarrow> real"
    \<comment> \<open>the narrowing of a \<^verbatim>\<open>double\<close> to a \<^verbatim>\<open>float\<close>\<close>

subsection \<open>State and effects (LoadingScreenSubsystem.h)\<close>

datatype SWidget = UserWidget | SThrobber

record ULoadingScreenSubsystem =
  LoadingScreenWidget :: "SWidget option"
  bIsDisplayingLoadingScreen :: bool
  LoadingScreenStateReason :: string
  LoadingScreenLastDismissedTimestamp :: real
  bIsDisplayedByGameLogic :: bool
  UserSpecifiedLoadingScreenReason :: string

datatype effect =
    OnHoldTimeTriggered real
      \<comment> \<open>\<^verbatim>\<open>OnHoldTimeTriggeredDelegate.Broadcast\<close>\<close>
  | OnVisibilityChanged bool
      \<comment> \<open>\<^verbatim>\<open>OnVisibilityChangedDelegate.Broadcast\<close>\<close>
  | LogStatus bool string
      \<comment> \<open>the log line of \<^verbatim>\<open>UpdateLoadingScreen\<close>\<close>
  | LogWidgetError string
      \<comment> \<open>the error line of \<^verbatim>\<open>ShowLoadingScreen\<close>\<close>
  | AddViewportWidgetContent SWidget int
  | RemoveViewportWidgetContent SWidget
  | SetDisableWorldRendering bool
  | SetHighPriorityLoadingLocal bool
  | SlateTick

text \<open>
  A freshly constructed subsystem: the default member initialisers of the header, the
  zeroed memory of a new object for the members without one.
\<close>

definition InitialSubsystem :: ULoadingScreenSubsystem where
  "InitialSubsystem =
     \<lparr> LoadingScreenWidget = None, bIsDisplayingLoadingScreen = False,
       LoadingScreenStateReason = [], LoadingScreenLastDismissedTimestamp = - 1,
       bIsDisplayedByGameLogic = False, UserSpecifiedLoadingScreenReason = [] \<rparr>"

text \<open>The two delegate broadcasts among the effects.\<close>

fun is_hold_time :: "effect \<Rightarrow> bool" where
  "is_hold_time (OnHoldTimeTriggered t) = True"
| "is_hold_time _ = False"

fun is_visibility :: "effect \<Rightarrow> bool" where
  "is_visibility (OnVisibilityChanged b) = True"
| "is_visibility _ = False"

fun is_broadcast :: "effect \<Rightarrow> bool" where
  "is_broadcast (OnHoldTimeTriggered t) = True"
| "is_broadcast (OnVisibilityChanged b) = True"
| "is_broadcast _ = False"

subsection \<open>Queries and commands\<close>

definition IsLoadingScreenDisplayed :: "ULoadingScreenSubsystem \<Rightarrow> bool" where
  "IsLoadingScreenDisplayed s = bIsDisplayingLoadingScreen s"

definition ForceDisplayStateByGameLogic ::
  "bool \<Rightarrow> string \<Rightarrow> ULoadingScreenSubsystem \<Rightarrow> ULoadingScreenSubsystem" where
  "ForceDisplayStateByGameLogic Visibility Reason s =
     s\<lparr> UserSpecifiedLoadingScreenReason := Reason,
        bIsDisplayedByGameLogic := Visibility \<rparr>"

definition IsWaitingForAdditionalTime :: "engine \<Rightarrow> ULoadingScreenSubsystem \<Rightarrow> bool" where
  "IsWaitingForAdditionalTime e s =
     (if bIsDisplayingLoadingScreen s = False then False
      else if HoldLoadingScreenAdditionalSecs (Settings e) \<le> 0 then False
      else if LoadingScreenLastDismissedTimestamp s > 0 then True
      else False)"

definition GetAdditionalTimeRemaining :: "engine \<Rightarrow> ULoadingScreenSubsystem \<Rightarrow> real" where
  "GetAdditionalTimeRemaining e s =
     (let CurrentTime = Seconds e;
          TimeSinceScreenDismissed =
            DoubleMinus e CurrentTime (LoadingScreenLastDismissedTimestamp s)
      in FloatOfDouble e
           (DoubleMinus e (HoldLoadingScreenAdditionalSecs (Settings e))
              TimeSinceScreenDismissed))"

subsection \<open>The decision\<close>

definition CheckForDisplayReason ::
  "engine \<Rightarrow> ULoadingScreenSubsystem \<Rightarrow> bool \<times> ULoadingScreenSubsystem" where
  "CheckForDisplayReason e s =
     (if bForceDisplayLoadingScreen (Settings e) = True then
        (True, s\<lparr> LoadingScreenStateReason :=
                    ''ForceDisplayLoadingScreen in settings is true'' \<rparr>)
      else case GetWorldContext e of
        None \<Rightarrow>
          (True, s\<lparr> LoadingScreenStateReason :=
                      ''The game instance has a null WorldContext'' \<rparr>)
      | Some Context \<Rightarrow>
          (case World Context of
             None \<Rightarrow>
               (True, s\<lparr> LoadingScreenStateReason :=
                           ''We have no world is null, FWorldContext's World()'' \<rparr>)
           | Some W \<Rightarrow>
               if \<not> HasBegunPlay W then
                 (True, s\<lparr> LoadingScreenStateReason := ''World hasn't begun play'' \<rparr>)
               else if bIsDisplayedByGameLogic s = True then
                 (if UserSpecifiedLoadingScreenReason s = [] then
                    (True, s\<lparr> LoadingScreenStateReason :=
                      ''Reason not specified in ForceDisplayStateByGameLogic. Assumed gameplay logic.'' \<rparr>)
                  else
                    (True, s\<lparr> LoadingScreenStateReason :=
                                UserSpecifiedLoadingScreenReason s \<rparr>))
               else
                 (False, s\<lparr> LoadingScreenStateReason := ''No reason to display.'' \<rparr>)))"

text \<open>
  The local variable \<^verbatim>\<open>HoldLoadingScreenTime\<close> of \<^verbatim>\<open>ShouldShowLoadingScreen\<close>: the configured
  hold time, or zero in the editor when the hold is switched off there.
\<close>

definition HoldLoadingScreenTime :: "engine \<Rightarrow> real" where
  "HoldLoadingScreenTime e =
     (if GIsEditor e \<and> bShowLoadingScreenAdditionalSecsInEditor (Settings e) = False
      then 0 else HoldLoadingScreenAdditionalSecs (Settings e))"

definition ShouldShowLoadingScreen ::
  "engine \<Rightarrow> ULoadingScreenSubsystem \<Rightarrow> bool \<times> ULoadingScreenSubsystem \<times> effect list" where
  "ShouldShowLoadingScreen e s =
     (case CheckForDisplayReason e s of (bNeedToShowLoadingScreen, s1) \<Rightarrow>
        if bNeedToShowLoadingScreen then
          (True, s1\<lparr> LoadingScreenLastDismissedTimestamp := - 1 \<rparr>, [])
        else
          (let CurrentTime = Seconds e;
               s2 = (if LoadingScreenLastDismissedTimestamp s1 < 0
                     then s1\<lparr> LoadingScreenLastDismissedTimestamp := CurrentTime \<rparr>
                     else s1);
               out = (if LoadingScreenLastDismissedTimestamp s1 < 0
                      then [OnHoldTimeTriggered (HoldLoadingScreenTime e)] else []);
               TimeSinceScreenDismissed =
                 DoubleMinus e CurrentTime (LoadingScreenLastDismissedTimestamp s2)
           in if HoldLoadingScreenTime e > 0
                 \<and> TimeSinceScreenDismissed < HoldLoadingScreenTime e
              then (True,
                    s2\<lparr> LoadingScreenStateReason :=
                          ''Keeping loading screen up for an additional ''
                          @ Printf_2f e (HoldLoadingScreenAdditionalSecs (Settings e))
                          @ '' seconds to allow texture streaming'' \<rparr>,
                    out @ [SetDisableWorldRendering False])
              else (False, s2, out)))"

subsection \<open>Showing and hiding\<close>

definition ChangePerformanceSettings :: "engine \<Rightarrow> bool \<Rightarrow> effect list" where
  "ChangePerformanceSettings e bEnabingLoadingScreen =
     SetDisableWorldRendering bEnabingLoadingScreen
     # (if ViewportWorldSettings e
        then [SetHighPriorityLoadingLocal bEnabingLoadingScreen] else [])"

definition RemoveWidget ::
  "ULoadingScreenSubsystem \<Rightarrow> ULoadingScreenSubsystem \<times> effect list" where
  "RemoveWidget s =
     (case LoadingScreenWidget s of
        Some w \<Rightarrow> (s\<lparr> LoadingScreenWidget := None \<rparr>, [RemoveViewportWidgetContent w])
      | None \<Rightarrow> (s, []))"

definition ShowLoadingScreen ::
  "engine \<Rightarrow> ULoadingScreenSubsystem \<Rightarrow> ULoadingScreenSubsystem \<times> effect list" where
  "ShowLoadingScreen e s =
     (if bIsDisplayingLoadingScreen s then (s, [])
      else
        (let w = (if CreateWidgetInstance e then UserWidget else SThrobber)
         in (s\<lparr> bIsDisplayingLoadingScreen := True, LoadingScreenWidget := Some w \<rparr>,
             [OnVisibilityChanged True]
             @ (if CreateWidgetInstance e then []
                else [LogWidgetError (LoadingScreenWidgetPath (Settings e))])
             @ [AddViewportWidgetContent w (ZOrder (Settings e))]
             @ ChangePerformanceSettings e True
             @ (if \<not> GIsEditor e then [SlateTick] else []))))"

definition HideLoadingScreen ::
  "engine \<Rightarrow> ULoadingScreenSubsystem \<Rightarrow> ULoadingScreenSubsystem \<times> effect list" where
  "HideLoadingScreen e s =
     (if \<not> bIsDisplayingLoadingScreen s then (s, [])
      else
        (case RemoveWidget s of (s1, out) \<Rightarrow>
           (s1\<lparr> bIsDisplayingLoadingScreen := False \<rparr>,
            out @ ChangePerformanceSettings e False @ [OnVisibilityChanged False])))"

definition UpdateLoadingScreen ::
  "engine \<Rightarrow> ULoadingScreenSubsystem \<Rightarrow> ULoadingScreenSubsystem \<times> effect list" where
  "UpdateLoadingScreen e s =
     (case ShouldShowLoadingScreen e s of (bShow, s1, out1) \<Rightarrow>
        (case (if bShow then ShowLoadingScreen e s1 else HideLoadingScreen e s1) of
           (s2, out2) \<Rightarrow>
             (s2, out1 @ out2
                  @ (if bLogLoadingScreenReason (Settings e) = True
                     then [LogStatus (bIsDisplayingLoadingScreen s2)
                                     (LoadingScreenStateReason s2)]
                     else []))))"

subsection \<open>Entry points\<close>

definition Tick ::
  "real \<Rightarrow> engine \<Rightarrow> ULoadingScreenSubsystem \<Rightarrow> ULoadingScreenSubsystem \<times> effect list" where
  "Tick DeltaTime e s = UpdateLoadingScreen e s"

definition HandlePreLoadMap ::
  "engine \<Rightarrow> ULoadingScreenSubsystem \<Rightarrow> ULoadingScreenSubsystem \<times> effect list" where
  "HandlePreLoadMap e s = (if IsInitialized e then UpdateLoadingScreen e s else (s, []))"

definition HandlePostLoadMap ::
  "ULoadingScreenSubsystem \<Rightarrow> ULoadingScreenSubsystem \<times> effect list" where
  "HandlePostLoadMap s = (s, [])"

text \<open>
  The calls the engine and the game make on the subsystem during a session, and the
  session as the list of them in the order they happen.
\<close>

datatype call =
    CallTick real engine
  | CallPreLoadMap engine
  | CallPostLoadMap
  | CallForceDisplay bool string

fun perform ::
  "call \<Rightarrow> ULoadingScreenSubsystem \<Rightarrow> ULoadingScreenSubsystem \<times> effect list" where
  "perform (CallTick dt e) s = Tick dt e s"
| "perform (CallPreLoadMap e) s = HandlePreLoadMap e s"
| "perform CallPostLoadMap s = HandlePostLoadMap s"
| "perform (CallForceDisplay v r) s = (ForceDisplayStateByGameLogic v r s, [])"

fun session ::
  "call list \<Rightarrow> ULoadingScreenSubsystem \<Rightarrow> ULoadingScreenSubsystem \<times> effect list" where
  "session [] s = (s, [])"
| "session (c # cs) s =
     (case perform c s of (s1, out1) \<Rightarrow>
        (case session cs s1 of (s2, out2) \<Rightarrow> (s2, out1 @ out2)))"

subsection \<open>Concrete engine answers\<close>

text \<open>
  The engine during play at clock reading \<open>t\<close>: default settings, a world that has begun
  play, a packaged game (not the editor). \<open>LoadingEngine\<close> is the same while the world has
  not begun play yet, \<open>EditorEngine\<close> the same inside the editor. They are used below at
  clock readings that are small whole numbers, whose differences a \<^verbatim>\<open>double\<close> holds
  exactly: there the subtraction does not round.
\<close>

definition PlayingEngine :: "real \<Rightarrow> engine" where
  "PlayingEngine t =
     \<lparr> Settings = DefaultSettings,
       GetWorldContext = Some (FWorldContext (Some (UWorld True))),
       Seconds = t, GIsEditor = False, IsInitialized = True,
       CreateWidgetInstance = True, ViewportWorldSettings = True,
       Printf_2f = (\<lambda>x. ''2.00''),
       DoubleMinus = (\<lambda>a b. a - b), FloatOfDouble = (\<lambda>x. x) \<rparr>"

definition LoadingEngine :: "real \<Rightarrow> engine" where
  "LoadingEngine t =
     (PlayingEngine t)\<lparr> GetWorldContext := Some (FWorldContext (Some (UWorld False))) \<rparr>"

definition EditorEngine :: "real \<Rightarrow> engine" where
  "EditorEngine t = (PlayingEngine t)\<lparr> GIsEditor := True \<rparr>"

definition ForcedEngine :: "real \<Rightarrow> engine" where
  "ForcedEngine t =
     (PlayingEngine t)\<lparr> Settings := DefaultSettings\<lparr> bForceDisplayLoadingScreen := True \<rparr> \<rparr>"

subsection \<open>Evaluations, hold episodes and the clock\<close>

text \<open>
  The calls that run \<^verbatim>\<open>UpdateLoadingScreen\<close>, with the engine answers they run it on: every
  tick, and the pre-load hook when the engine is initialised.
\<close>

fun evaluates :: "call \<Rightarrow> engine option" where
  "evaluates (CallTick dt e) = Some e"
| "evaluates (CallPreLoadMap e) = (if IsInitialized e then Some e else None)"
| "evaluates CallPostLoadMap = None"
| "evaluates (CallForceDisplay v r) = None"


text \<open>The platform clock reads a positive number of seconds in the engine answers of a call.\<close>

fun platform_clock :: "call \<Rightarrow> bool" where
  "platform_clock (CallTick dt e) = (0 < Seconds e)"
| "platform_clock (CallPreLoadMap e) = (0 < Seconds e)"
| "platform_clock CallPostLoadMap = True"
| "platform_clock (CallForceDisplay v r) = True"

section \<open>Properties\<close>

subsection \<open>The blocking reasons\<close>

text \<open>
  Whether \<^verbatim>\<open>CheckForDisplayReason\<close> finds a reason, in terms of what it reads: a shared
  fact for the proofs below.
\<close>

lemma CheckForDisplayReason_fst:
  "fst (CheckForDisplayReason e s) =
     (bForceDisplayLoadingScreen (Settings e)
      \<or> GetWorldContext e = None
      \<or> GetWorldContext e = Some (FWorldContext None)
      \<or> GetWorldContext e = Some (FWorldContext (Some (UWorld False)))
      \<or> bIsDisplayedByGameLogic s)"
proof (cases "GetWorldContext e")
  case None
  then show ?thesis by (simp add: CheckForDisplayReason_def)
next
  case (Some c)
  obtain w where c: "c = FWorldContext w" by (cases c)
  show ?thesis
  proof (cases w)
    case None
    with Some c show ?thesis by (simp add: CheckForDisplayReason_def)
  next
    case (Some u)
    obtain b where "u = UWorld b" by (cases u)
    with Some c \<open>GetWorldContext e = Some c\<close> show ?thesis
      by (simp add: CheckForDisplayReason_def)
  qed
qed

lemma CheckForDisplayReason_frame:
  "snd (CheckForDisplayReason e s)
     = s\<lparr> LoadingScreenStateReason :=
            LoadingScreenStateReason (snd (CheckForDisplayReason e s)) \<rparr>"
  by (simp add: CheckForDisplayReason_def split: option.splits)

text \<open>
  Claim C1. \<^verbatim>\<open>CheckForDisplayReason\<close> tests, in this order, (1) the settings' force flag,
  (2) a null world context, (3) a null world, (4) a world that has not begun play, (5) the
  flag set by game logic. It returns true exactly when one of the five matches. The state
  it returns is the state it was given with only \<^verbatim>\<open>LoadingScreenStateReason\<close> replaced: by
  the text of the earliest matching check (for check 5 the user's reason when that is not
  empty, a fixed placeholder otherwise), and by "No reason to display." when none matches.
\<close>

theorem CheckForDisplayReason_first_match_wins:
  "fst (CheckForDisplayReason e s) =
     (bForceDisplayLoadingScreen (Settings e)
      \<or> GetWorldContext e = None
      \<or> GetWorldContext e = Some (FWorldContext None)
      \<or> GetWorldContext e = Some (FWorldContext (Some (UWorld False)))
      \<or> bIsDisplayedByGameLogic s)
   \<and> snd (CheckForDisplayReason e s) =
     s\<lparr> LoadingScreenStateReason :=
         (if bForceDisplayLoadingScreen (Settings e)
            then ''ForceDisplayLoadingScreen in settings is true''
          else if GetWorldContext e = None
            then ''The game instance has a null WorldContext''
          else if GetWorldContext e = Some (FWorldContext None)
            then ''We have no world is null, FWorldContext's World()''
          else if GetWorldContext e = Some (FWorldContext (Some (UWorld False)))
            then ''World hasn't begun play''
          else if bIsDisplayedByGameLogic s
            then (if UserSpecifiedLoadingScreenReason s = []
                  then ''Reason not specified in ForceDisplayStateByGameLogic. Assumed gameplay logic.''
                  else UserSpecifiedLoadingScreenReason s)
          else ''No reason to display.'') \<rparr>"
proof (cases "GetWorldContext e")
  case None
  then show ?thesis by (simp add: CheckForDisplayReason_def)
next
  case (Some c)
  obtain w where c: "c = FWorldContext w" by (cases c)
  show ?thesis
  proof (cases w)
    case None
    with Some c show ?thesis by (simp add: CheckForDisplayReason_def)
  next
    case (Some u)
    obtain b where "u = UWorld b" by (cases u)
    with Some c \<open>GetWorldContext e = Some c\<close> show ?thesis
      by (simp add: CheckForDisplayReason_def)
  qed
qed

subsection \<open>The forced display of the settings\<close>

text \<open>
  Claim C2. When the settings have \<^verbatim>\<open>bForceDisplayLoadingScreen\<close> set,
  \<^verbatim>\<open>ShouldShowLoadingScreen\<close> returns true, whatever the state of the subsystem and whatever
  else the engine answers (world context, world, clock, editor flag).
\<close>

theorem ShouldShowLoadingScreen_forced_by_settings:
  "bForceDisplayLoadingScreen (Settings e) \<Longrightarrow> fst (ShouldShowLoadingScreen e s) = True"
  by (simp add: ShouldShowLoadingScreen_def CheckForDisplayReason_def)

theorem ShouldShowLoadingScreen_forced_by_settings_witness:
  "bForceDisplayLoadingScreen (Settings (ForcedEngine 100))
   \<and> fst (ShouldShowLoadingScreen (ForcedEngine 100) InitialSubsystem) = True"
  using ShouldShowLoadingScreen_forced_by_settings [of "ForcedEngine 100" InitialSubsystem]
  by (simp add: ForcedEngine_def)

subsection \<open>Shared facts about the member functions\<close>

lemmas engine_defs = PlayingEngine_def LoadingEngine_def EditorEngine_def ForcedEngine_def
  DefaultSettings_def

lemmas subsystem_defs = InitialSubsystem_def Tick_def HandlePreLoadMap_def HandlePostLoadMap_def
  UpdateLoadingScreen_def ShouldShowLoadingScreen_def CheckForDisplayReason_def
  HoldLoadingScreenTime_def ShowLoadingScreen_def HideLoadingScreen_def RemoveWidget_def
  ChangePerformanceSettings_def ForceDisplayStateByGameLogic_def IsWaitingForAdditionalTime_def

lemma no_reason_iff:
  "(\<not> fst (CheckForDisplayReason e s)) =
     (\<not> bForceDisplayLoadingScreen (Settings e)
      \<and> GetWorldContext e = Some (FWorldContext (Some (UWorld True)))
      \<and> \<not> bIsDisplayedByGameLogic s)"
proof (cases "GetWorldContext e")
  case None
  then show ?thesis by (simp add: CheckForDisplayReason_def)
next
  case (Some c)
  obtain w where c: "c = FWorldContext w" by (cases c)
  show ?thesis
  proof (cases w)
    case None
    with Some c show ?thesis by (simp add: CheckForDisplayReason_def)
  next
    case (Some u)
    obtain b where "u = UWorld b" by (cases u)
    with Some c \<open>GetWorldContext e = Some c\<close> show ?thesis
      by (simp add: CheckForDisplayReason_def)
  qed
qed

lemma CheckForDisplayReason_clear:
  "\<not> fst (CheckForDisplayReason e s) \<Longrightarrow>
   CheckForDisplayReason e s = (False, s\<lparr> LoadingScreenStateReason := ''No reason to display.'' \<rparr>)"
  by (simp add: no_reason_iff) (simp add: CheckForDisplayReason_def)

lemma CheckForDisplayReason_flags:
  "bIsDisplayedByGameLogic (snd (CheckForDisplayReason e s)) = bIsDisplayedByGameLogic s"
  "UserSpecifiedLoadingScreenReason (snd (CheckForDisplayReason e s)) = UserSpecifiedLoadingScreenReason s"
  "LoadingScreenLastDismissedTimestamp (snd (CheckForDisplayReason e s)) = LoadingScreenLastDismissedTimestamp s"
  "bIsDisplayingLoadingScreen (snd (CheckForDisplayReason e s)) = bIsDisplayingLoadingScreen s"
  "LoadingScreenWidget (snd (CheckForDisplayReason e s)) = LoadingScreenWidget s"
  by (subst CheckForDisplayReason_frame, simp)+

lemma ShouldShowLoadingScreen_blocked:
  "fst (CheckForDisplayReason e s) \<Longrightarrow>
   ShouldShowLoadingScreen e s =
     (True, (snd (CheckForDisplayReason e s))\<lparr> LoadingScreenLastDismissedTimestamp := - 1 \<rparr>, [])"
  by (cases "CheckForDisplayReason e s") (simp add: ShouldShowLoadingScreen_def)

lemma ShouldShowLoadingScreen_clear:
  "\<not> fst (CheckForDisplayReason e s) \<Longrightarrow>
   ShouldShowLoadingScreen e s =
     (let t0 = (if LoadingScreenLastDismissedTimestamp s < 0 then Seconds e
                else LoadingScreenLastDismissedTimestamp s);
          out = (if LoadingScreenLastDismissedTimestamp s < 0
                 then [OnHoldTimeTriggered (HoldLoadingScreenTime e)] else [])
      in if 0 < HoldLoadingScreenTime e
            \<and> DoubleMinus e (Seconds e) t0 < HoldLoadingScreenTime e
         then (True,
               s\<lparr> LoadingScreenStateReason :=
                    ''Keeping loading screen up for an additional ''
                    @ Printf_2f e (HoldLoadingScreenAdditionalSecs (Settings e))
                    @ '' seconds to allow texture streaming'',
                  LoadingScreenLastDismissedTimestamp := t0 \<rparr>,
               out @ [SetDisableWorldRendering False])
         else (False,
               s\<lparr> LoadingScreenStateReason := ''No reason to display.'',
                  LoadingScreenLastDismissedTimestamp := t0 \<rparr>,
               out))"
  by (simp add: ShouldShowLoadingScreen_def CheckForDisplayReason_clear Let_def)

lemma ShowLoadingScreen_fields:
  "bIsDisplayingLoadingScreen (fst (ShowLoadingScreen e s)) = True"
  "LoadingScreenLastDismissedTimestamp (fst (ShowLoadingScreen e s)) = LoadingScreenLastDismissedTimestamp s"
  "LoadingScreenStateReason (fst (ShowLoadingScreen e s)) = LoadingScreenStateReason s"
  "bIsDisplayedByGameLogic (fst (ShowLoadingScreen e s)) = bIsDisplayedByGameLogic s"
  "UserSpecifiedLoadingScreenReason (fst (ShowLoadingScreen e s)) = UserSpecifiedLoadingScreenReason s"
  "filter is_hold_time (snd (ShowLoadingScreen e s)) = []"
  "filter is_visibility (snd (ShowLoadingScreen e s)) =
     (if bIsDisplayingLoadingScreen s then [] else [OnVisibilityChanged True])"
  "filter is_broadcast (snd (ShowLoadingScreen e s)) =
     (if bIsDisplayingLoadingScreen s then [] else [OnVisibilityChanged True])"
  by (simp_all add: ShowLoadingScreen_def ChangePerformanceSettings_def Let_def)

lemma HideLoadingScreen_fields:
  "bIsDisplayingLoadingScreen (fst (HideLoadingScreen e s)) = False"
  "LoadingScreenLastDismissedTimestamp (fst (HideLoadingScreen e s)) = LoadingScreenLastDismissedTimestamp s"
  "LoadingScreenStateReason (fst (HideLoadingScreen e s)) = LoadingScreenStateReason s"
  "bIsDisplayedByGameLogic (fst (HideLoadingScreen e s)) = bIsDisplayedByGameLogic s"
  "UserSpecifiedLoadingScreenReason (fst (HideLoadingScreen e s)) = UserSpecifiedLoadingScreenReason s"
  "filter is_hold_time (snd (HideLoadingScreen e s)) = []"
  "filter is_visibility (snd (HideLoadingScreen e s)) =
     (if bIsDisplayingLoadingScreen s then [OnVisibilityChanged False] else [])"
  "filter is_broadcast (snd (HideLoadingScreen e s)) =
     (if bIsDisplayingLoadingScreen s then [OnVisibilityChanged False] else [])"
  by (simp_all add: HideLoadingScreen_def RemoveWidget_def ChangePerformanceSettings_def
        split: option.splits)

lemma ShouldShowLoadingScreen_fields:
  "bIsDisplayingLoadingScreen (fst (snd (ShouldShowLoadingScreen e s))) = bIsDisplayingLoadingScreen s"
  "bIsDisplayedByGameLogic (fst (snd (ShouldShowLoadingScreen e s))) = bIsDisplayedByGameLogic s"
  "UserSpecifiedLoadingScreenReason (fst (snd (ShouldShowLoadingScreen e s))) = UserSpecifiedLoadingScreenReason s"
  "LoadingScreenWidget (fst (snd (ShouldShowLoadingScreen e s))) = LoadingScreenWidget s"
  "filter is_visibility (snd (snd (ShouldShowLoadingScreen e s))) = []"
  by (cases "fst (CheckForDisplayReason e s)";
      simp add: ShouldShowLoadingScreen_blocked ShouldShowLoadingScreen_clear
        CheckForDisplayReason_flags Let_def)+

lemma UpdateLoadingScreen_fields:
  "bIsDisplayingLoadingScreen (fst (UpdateLoadingScreen e s)) = fst (ShouldShowLoadingScreen e s)"
  "LoadingScreenLastDismissedTimestamp (fst (UpdateLoadingScreen e s))
     = LoadingScreenLastDismissedTimestamp (fst (snd (ShouldShowLoadingScreen e s)))"
  "LoadingScreenStateReason (fst (UpdateLoadingScreen e s))
     = LoadingScreenStateReason (fst (snd (ShouldShowLoadingScreen e s)))"
  "bIsDisplayedByGameLogic (fst (UpdateLoadingScreen e s)) = bIsDisplayedByGameLogic s"
  "UserSpecifiedLoadingScreenReason (fst (UpdateLoadingScreen e s))
     = UserSpecifiedLoadingScreenReason s"
  "filter is_hold_time (snd (UpdateLoadingScreen e s))
     = filter is_hold_time (snd (snd (ShouldShowLoadingScreen e s)))"
  "filter is_visibility (snd (UpdateLoadingScreen e s))
     = (if fst (ShouldShowLoadingScreen e s) = bIsDisplayingLoadingScreen s then []
        else [OnVisibilityChanged (fst (ShouldShowLoadingScreen e s))])"
  "filter is_broadcast (snd (UpdateLoadingScreen e s))
     = filter is_broadcast (snd (snd (ShouldShowLoadingScreen e s)))
       @ (if fst (ShouldShowLoadingScreen e s) = bIsDisplayingLoadingScreen s then []
          else [OnVisibilityChanged (fst (ShouldShowLoadingScreen e s))])"
proof -
  obtain b s1 out1 where sh: "ShouldShowLoadingScreen e s = (b, s1, out1)"
    by (cases "ShouldShowLoadingScreen e s")
  define r where "r = (if b then ShowLoadingScreen e s1 else HideLoadingScreen e s1)"
  have upd: "UpdateLoadingScreen e s =
      (fst r, out1 @ snd r
              @ (if bLogLoadingScreenReason (Settings e) = True
                 then [LogStatus (bIsDisplayingLoadingScreen (fst r))
                                 (LoadingScreenStateReason (fst r))]
                 else []))"
    by (simp add: UpdateLoadingScreen_def sh r_def case_prod_beta)
  have before: "bIsDisplayingLoadingScreen s1 = bIsDisplayingLoadingScreen s"
    "bIsDisplayedByGameLogic s1 = bIsDisplayedByGameLogic s"
    "UserSpecifiedLoadingScreenReason s1 = UserSpecifiedLoadingScreenReason s"
    "filter is_visibility out1 = []"
    using ShouldShowLoadingScreen_fields [of e s] by (simp_all add: sh)
  have after: "bIsDisplayingLoadingScreen (fst r) = b"
    "LoadingScreenLastDismissedTimestamp (fst r) = LoadingScreenLastDismissedTimestamp s1"
    "LoadingScreenStateReason (fst r) = LoadingScreenStateReason s1"
    "bIsDisplayedByGameLogic (fst r) = bIsDisplayedByGameLogic s1"
    "UserSpecifiedLoadingScreenReason (fst r) = UserSpecifiedLoadingScreenReason s1"
    "filter is_hold_time (snd r) = []"
    "filter is_visibility (snd r) =
       (if b = bIsDisplayingLoadingScreen s1 then [] else [OnVisibilityChanged b])"
    "filter is_broadcast (snd r) =
       (if b = bIsDisplayingLoadingScreen s1 then [] else [OnVisibilityChanged b])"
    by (simp_all add: r_def ShowLoadingScreen_fields HideLoadingScreen_fields)
  show "bIsDisplayingLoadingScreen (fst (UpdateLoadingScreen e s))
      = fst (ShouldShowLoadingScreen e s)"
    by (simp add: upd sh after)
  show "LoadingScreenLastDismissedTimestamp (fst (UpdateLoadingScreen e s))
     = LoadingScreenLastDismissedTimestamp (fst (snd (ShouldShowLoadingScreen e s)))"
    by (simp add: upd sh after)
  show "LoadingScreenStateReason (fst (UpdateLoadingScreen e s))
     = LoadingScreenStateReason (fst (snd (ShouldShowLoadingScreen e s)))"
    by (simp add: upd sh after)
  show "bIsDisplayedByGameLogic (fst (UpdateLoadingScreen e s)) = bIsDisplayedByGameLogic s"
    by (simp add: upd after before)
  show "UserSpecifiedLoadingScreenReason (fst (UpdateLoadingScreen e s))
     = UserSpecifiedLoadingScreenReason s"
    by (simp add: upd after before)
  show "filter is_hold_time (snd (UpdateLoadingScreen e s))
     = filter is_hold_time (snd (snd (ShouldShowLoadingScreen e s)))"
    by (simp add: upd sh after)
  show "filter is_visibility (snd (UpdateLoadingScreen e s))
     = (if fst (ShouldShowLoadingScreen e s) = bIsDisplayingLoadingScreen s then []
        else [OnVisibilityChanged (fst (ShouldShowLoadingScreen e s))])"
    by (simp add: upd sh after before)
  show "filter is_broadcast (snd (UpdateLoadingScreen e s))
     = filter is_broadcast (snd (snd (ShouldShowLoadingScreen e s)))
       @ (if fst (ShouldShowLoadingScreen e s) = bIsDisplayingLoadingScreen s then []
          else [OnVisibilityChanged (fst (ShouldShowLoadingScreen e s))])"
    by (simp add: upd sh after before)
qed

lemma session_Cons:
  "fst (session (c # cs) s) = fst (session cs (fst (perform c s)))"
  "snd (session (c # cs) s) = snd (perform c s) @ snd (session cs (fst (perform c s)))"
  by (simp_all add: case_prod_beta)

lemma perform_evaluates:
  "evaluates c = Some e \<Longrightarrow> perform c s = UpdateLoadingScreen e s"
  by (cases c) (simp_all add: Tick_def HandlePreLoadMap_def split: if_splits)

lemma perform_no_evaluation:
  assumes "evaluates c = None"
  shows "filter is_hold_time (snd (perform c s)) = []"
    and "LoadingScreenLastDismissedTimestamp (fst (perform c s))
           = LoadingScreenLastDismissedTimestamp s"
    and "bIsDisplayingLoadingScreen (fst (perform c s)) = bIsDisplayingLoadingScreen s"
  using assms
  by (cases c; simp add: HandlePreLoadMap_def HandlePostLoadMap_def
        ForceDisplayStateByGameLogic_def split: if_splits)+


text \<open>
  With a positive clock the stored timestamp is \<open>-1\<close>, as in the initial state, or a clock
  reading: it is never zero.
\<close>

lemma perform_timestamp_nonzero:
  assumes "LoadingScreenLastDismissedTimestamp s \<noteq> 0" and "platform_clock c"
  shows "LoadingScreenLastDismissedTimestamp (fst (perform c s)) \<noteq> 0"
proof (cases "evaluates c")
  case None
  with assms(1) show ?thesis by (simp add: perform_no_evaluation)
next
  case (Some e)
  with assms(2) have pos: "0 < Seconds e"
    by (cases c) (simp_all split: if_splits)
  show ?thesis
  proof (cases "fst (CheckForDisplayReason e s)")
    case True
    then show ?thesis
      by (simp add: perform_evaluates [OF Some] UpdateLoadingScreen_fields
            ShouldShowLoadingScreen_blocked)
  next
    case False
    with assms(1) pos show ?thesis
      by (simp add: perform_evaluates [OF Some] UpdateLoadingScreen_fields
            ShouldShowLoadingScreen_clear Let_def)
  qed
qed

lemma session_timestamp_nonzero:
  "LoadingScreenLastDismissedTimestamp s \<noteq> 0 \<Longrightarrow> \<forall>c \<in> set cs. platform_clock c \<Longrightarrow>
   LoadingScreenLastDismissedTimestamp (fst (session cs s)) \<noteq> 0"
proof (induction cs arbitrary: s)
  case Nil
  then show ?case by simp
next
  case (Cons c cs)
  from Cons.prems have "LoadingScreenLastDismissedTimestamp (fst (perform c s)) \<noteq> 0"
    by (simp add: perform_timestamp_nonzero)
  with Cons.IH [of "fst (perform c s)"] Cons.prems(2) show ?case
    by (simp add: session_Cons del: session.simps)
qed

lemma CheckForDisplayReason_reason_cong:
  "bIsDisplayedByGameLogic s' = bIsDisplayedByGameLogic s \<Longrightarrow>
   UserSpecifiedLoadingScreenReason s' = UserSpecifiedLoadingScreenReason s \<Longrightarrow>
   LoadingScreenStateReason (snd (CheckForDisplayReason e s'))
     = LoadingScreenStateReason (snd (CheckForDisplayReason e s))"
  by (simp add: CheckForDisplayReason_def split: option.splits)

lemma UpdateLoadingScreen_blocked:
  assumes "fst (CheckForDisplayReason e s)"
  shows "fst (UpdateLoadingScreen e s) =
     (if bIsDisplayingLoadingScreen s
      then s\<lparr> LoadingScreenStateReason := LoadingScreenStateReason (snd (CheckForDisplayReason e s)),
              LoadingScreenLastDismissedTimestamp := - 1 \<rparr>
      else s\<lparr> LoadingScreenStateReason := LoadingScreenStateReason (snd (CheckForDisplayReason e s)),
              LoadingScreenLastDismissedTimestamp := - 1,
              bIsDisplayingLoadingScreen := True,
              LoadingScreenWidget := Some (if CreateWidgetInstance e then UserWidget else SThrobber) \<rparr>)"
proof -
  have "snd (CheckForDisplayReason e s) = s\<lparr> LoadingScreenStateReason := LoadingScreenStateReason (snd (CheckForDisplayReason e s)) \<rparr>"
    by (rule CheckForDisplayReason_frame)
  then obtain R where r: "snd (CheckForDisplayReason e s) = s\<lparr> LoadingScreenStateReason := R \<rparr>"
    by blast
  then have R: "LoadingScreenStateReason (snd (CheckForDisplayReason e s)) = R" by simp
  show ?thesis
    unfolding R using assms r
    by (simp add: UpdateLoadingScreen_def ShouldShowLoadingScreen_blocked ShowLoadingScreen_def Let_def)
qed


lemma UpdateLoadingScreen_clear:
  assumes "\<not> fst (CheckForDisplayReason e s)"
    and "t0 = (if LoadingScreenLastDismissedTimestamp s < 0 then Seconds e
               else LoadingScreenLastDismissedTimestamp s)"
    and "holding = (0 < HoldLoadingScreenTime e
                    \<and> DoubleMinus e (Seconds e) t0 < HoldLoadingScreenTime e)"
  shows "fst (UpdateLoadingScreen e s) =
     (if holding
      then (if bIsDisplayingLoadingScreen s
            then s\<lparr> LoadingScreenStateReason :=
                      ''Keeping loading screen up for an additional ''
                      @ Printf_2f e (HoldLoadingScreenAdditionalSecs (Settings e))
                      @ '' seconds to allow texture streaming'',
                    LoadingScreenLastDismissedTimestamp := t0 \<rparr>
            else s\<lparr> LoadingScreenStateReason :=
                      ''Keeping loading screen up for an additional ''
                      @ Printf_2f e (HoldLoadingScreenAdditionalSecs (Settings e))
                      @ '' seconds to allow texture streaming'',
                    LoadingScreenLastDismissedTimestamp := t0,
                    bIsDisplayingLoadingScreen := True,
                    LoadingScreenWidget :=
                      Some (if CreateWidgetInstance e then UserWidget else SThrobber) \<rparr>)
      else (if bIsDisplayingLoadingScreen s
            then s\<lparr> LoadingScreenStateReason := ''No reason to display.'',
                    LoadingScreenLastDismissedTimestamp := t0,
                    LoadingScreenWidget := None,
                    bIsDisplayingLoadingScreen := False \<rparr>
            else s\<lparr> LoadingScreenStateReason := ''No reason to display.'',
                    LoadingScreenLastDismissedTimestamp := t0 \<rparr>))"
proof -
  have sh: "ShouldShowLoadingScreen e s =
      (holding,
       s\<lparr> LoadingScreenStateReason :=
            (if holding
             then ''Keeping loading screen up for an additional ''
                  @ Printf_2f e (HoldLoadingScreenAdditionalSecs (Settings e))
                  @ '' seconds to allow texture streaming''
             else ''No reason to display.''),
          LoadingScreenLastDismissedTimestamp := t0 \<rparr>,
       (if LoadingScreenLastDismissedTimestamp s < 0
        then [OnHoldTimeTriggered (HoldLoadingScreenTime e)] else [])
       @ (if holding then [SetDisableWorldRendering False] else []))"
    using assms
    by (cases "LoadingScreenLastDismissedTimestamp s < 0")
       (simp_all add: ShouldShowLoadingScreen_clear Let_def)
  show ?thesis
  proof (cases holding)
    case True
    then show ?thesis
      by (cases "bIsDisplayingLoadingScreen s")
         (simp_all add: UpdateLoadingScreen_def sh ShowLoadingScreen_def Let_def)
  next
    case False
    then show ?thesis
      by (cases "bIsDisplayingLoadingScreen s"; cases "LoadingScreenWidget s")
         (simp_all add: UpdateLoadingScreen_def sh HideLoadingScreen_def RemoveWidget_def)
  qed
qed

lemma UpdateLoadingScreen_twice:
  "fst (UpdateLoadingScreen e (fst (UpdateLoadingScreen e s))) = fst (UpdateLoadingScreen e s)"
proof -
  let ?s1 = "fst (UpdateLoadingScreen e s)"
  have g: "bIsDisplayedByGameLogic ?s1 = bIsDisplayedByGameLogic s"
    and u: "UserSpecifiedLoadingScreenReason ?s1 = UserSpecifiedLoadingScreenReason s"
    by (simp_all add: UpdateLoadingScreen_fields)
  have c: "fst (CheckForDisplayReason e ?s1) = fst (CheckForDisplayReason e s)"
    by (simp add: CheckForDisplayReason_fst g)
  show ?thesis
  proof (cases "fst (CheckForDisplayReason e s)")
    case True
    have r: "LoadingScreenStateReason (snd (CheckForDisplayReason e ?s1))
           = LoadingScreenStateReason (snd (CheckForDisplayReason e s))"
      using g u by (rule CheckForDisplayReason_reason_cong)
    have d: "bIsDisplayingLoadingScreen ?s1"
      using True by (simp add: UpdateLoadingScreen_fields ShouldShowLoadingScreen_blocked)
    have "fst (UpdateLoadingScreen e ?s1) =
        ?s1\<lparr> LoadingScreenStateReason := LoadingScreenStateReason (snd (CheckForDisplayReason e s)),
              LoadingScreenLastDismissedTimestamp := - 1 \<rparr>"
      using True c d r by (simp add: UpdateLoadingScreen_blocked [of e ?s1])
    also have "\<dots> = ?s1"
      using True by (simp add: UpdateLoadingScreen_blocked [of e s])
    finally show ?thesis .
  next
    case False
    with c have c1: "\<not> fst (CheckForDisplayReason e ?s1)" by simp
    define t0 where "t0 = (if LoadingScreenLastDismissedTimestamp s < 0 then Seconds e
                else LoadingScreenLastDismissedTimestamp s)"
    define holding where
      "holding = (0 < HoldLoadingScreenTime e
                  \<and> DoubleMinus e (Seconds e) t0 < HoldLoadingScreenTime e)"
    note first = UpdateLoadingScreen_clear [OF False t0_def holding_def]
    have t: "LoadingScreenLastDismissedTimestamp ?s1 = t0"
      unfolding first by simp
    have t1: "t0 = (if LoadingScreenLastDismissedTimestamp ?s1 < 0 then Seconds e
               else LoadingScreenLastDismissedTimestamp ?s1)"
      unfolding t by (simp add: t0_def)
    have d: "bIsDisplayingLoadingScreen ?s1 = holding"
      unfolding first by simp
    note second = UpdateLoadingScreen_clear [OF c1 t1 holding_def]
    show ?thesis
    proof (cases holding)
      case True
      with d have "fst (UpdateLoadingScreen e ?s1) =
          ?s1\<lparr> LoadingScreenStateReason :=
                  ''Keeping loading screen up for an additional ''
                  @ Printf_2f e (HoldLoadingScreenAdditionalSecs (Settings e))
                  @ '' seconds to allow texture streaming'',
                LoadingScreenLastDismissedTimestamp := t0 \<rparr>"
        by (simp add: second)
      also have "\<dots> = ?s1"
        using True unfolding first by simp
      finally show ?thesis .
    next
      case F: False
      with d have "fst (UpdateLoadingScreen e ?s1) =
          ?s1\<lparr> LoadingScreenStateReason := ''No reason to display.'',
                LoadingScreenLastDismissedTimestamp := t0 \<rparr>"
        by (simp add: second)
      also have "\<dots> = ?s1"
        using F unfolding first by simp
      finally show ?thesis .
    qed
  qed
qed


text \<open>What \<^verbatim>\<open>IsWaitingForAdditionalTime\<close> tests, for reference.\<close>

lemma IsWaitingForAdditionalTime_iff:
  "IsWaitingForAdditionalTime e s =
     (bIsDisplayingLoadingScreen s \<and> 0 < LoadingScreenLastDismissedTimestamp s
      \<and> 0 < HoldLoadingScreenAdditionalSecs (Settings e))"
  by (auto simp: IsWaitingForAdditionalTime_def)

subsection \<open>The hold-time notification\<close>



subsection \<open>A blocking reason that comes back\<close>

text \<open>
  Claim C4. On every evaluation that finds a blocking reason, whatever the timestamp
  and however far a hold has run, \<^verbatim>\<open>ShouldShowLoadingScreen\<close> returns true and resets the
  timestamp to \<open>-1\<close>; after \<^verbatim>\<open>UpdateLoadingScreen\<close> the loading screen is displayed (with no
  visibility broadcast if it already was) and \<^verbatim>\<open>IsWaitingForAdditionalTime\<close> is false under
  any settings.
\<close>

theorem blocking_reason_cancels_hold:
  assumes "fst (CheckForDisplayReason e s)"
  shows "fst (ShouldShowLoadingScreen e s) = True
       \<and> LoadingScreenLastDismissedTimestamp (fst (snd (ShouldShowLoadingScreen e s))) = - 1
       \<and> LoadingScreenLastDismissedTimestamp (fst (UpdateLoadingScreen e s)) = - 1
       \<and> bIsDisplayingLoadingScreen (fst (UpdateLoadingScreen e s))
       \<and> \<not> IsWaitingForAdditionalTime e' (fst (UpdateLoadingScreen e s))
       \<and> (if bIsDisplayingLoadingScreen s
          then filter is_visibility (snd (UpdateLoadingScreen e s)) = []
          else filter is_visibility (snd (UpdateLoadingScreen e s))
                 = [OnVisibilityChanged True])"
  using assms
  by (simp add: UpdateLoadingScreen_fields ShouldShowLoadingScreen_blocked
        IsWaitingForAdditionalTime_def)

text \<open>
  The witness: the world stops being ready at clock 102, two seconds into a hold that
  started at clock 100 (two seconds configured, \<^verbatim>\<open>IsWaitingForAdditionalTime\<close> true).
\<close>

theorem blocking_reason_cancels_hold_witness:
  "fst (CheckForDisplayReason (LoadingEngine 102)
          (fst (session [CallTick (1/60) (LoadingEngine 99), CallTick (1/60) (PlayingEngine 100)]
                  InitialSubsystem)))
   \<and> IsWaitingForAdditionalTime (PlayingEngine 100)
          (fst (session [CallTick (1/60) (LoadingEngine 99), CallTick (1/60) (PlayingEngine 100)]
                  InitialSubsystem))
   \<and> LoadingScreenLastDismissedTimestamp
        (fst (UpdateLoadingScreen (LoadingEngine 102)
          (fst (session [CallTick (1/60) (LoadingEngine 99), CallTick (1/60) (PlayingEngine 100)]
                  InitialSubsystem)))) = - 1
   \<and> bIsDisplayingLoadingScreen
        (fst (UpdateLoadingScreen (LoadingEngine 102)
          (fst (session [CallTick (1/60) (LoadingEngine 99), CallTick (1/60) (PlayingEngine 100)]
                  InitialSubsystem))))
   \<and> \<not> IsWaitingForAdditionalTime (LoadingEngine 102)
        (fst (UpdateLoadingScreen (LoadingEngine 102)
          (fst (session [CallTick (1/60) (LoadingEngine 99), CallTick (1/60) (PlayingEngine 100)]
                  InitialSubsystem))))"
  using blocking_reason_cancels_hold [of "LoadingEngine 102"
      "fst (session [CallTick (1/60) (LoadingEngine 99), CallTick (1/60) (PlayingEngine 100)]
                  InitialSubsystem)" "LoadingEngine 102"]
  by (simp add: engine_defs subsystem_defs)

subsection \<open>The editor\<close>

text \<open>
  Claim C5. In the editor with \<^verbatim>\<open>bShowLoadingScreenAdditionalSecsInEditor\<close> off, the hold
  time \<^verbatim>\<open>ShouldShowLoadingScreen\<close> uses is zero whatever \<^verbatim>\<open>HoldLoadingScreenAdditionalSecs\<close>
  says; an evaluation that finds no blocking reason returns false, so the loading screen
  is hidden by that very \<^verbatim>\<open>UpdateLoadingScreen\<close> (one visibility broadcast of false if it was
  displayed), and a hold-time broadcast made on the way carries zero.
\<close>

theorem editor_skips_hold:
  assumes "GIsEditor e" and "bShowLoadingScreenAdditionalSecsInEditor (Settings e) = False"
    and "\<not> fst (CheckForDisplayReason e s)"
  shows "HoldLoadingScreenTime e = 0
       \<and> fst (ShouldShowLoadingScreen e s) = False
       \<and> \<not> bIsDisplayingLoadingScreen (fst (UpdateLoadingScreen e s))
       \<and> filter is_visibility (snd (UpdateLoadingScreen e s))
           = (if bIsDisplayingLoadingScreen s then [OnVisibilityChanged False] else [])
       \<and> filter is_hold_time (snd (UpdateLoadingScreen e s))
           = (if LoadingScreenLastDismissedTimestamp s < 0 then [OnHoldTimeTriggered 0]
              else [])"
proof -
  have "HoldLoadingScreenTime e = 0"
    using assms(1,2) by (simp add: HoldLoadingScreenTime_def)
  with assms(3) show ?thesis
    by (simp add: UpdateLoadingScreen_fields ShouldShowLoadingScreen_clear Let_def)
qed

theorem editor_skips_hold_witness:
  "GIsEditor (EditorEngine 100)
   \<and> bShowLoadingScreenAdditionalSecsInEditor (Settings (EditorEngine 100)) = False
   \<and> HoldLoadingScreenAdditionalSecs (Settings (EditorEngine 100)) = 2
   \<and> \<not> fst (CheckForDisplayReason (EditorEngine 100)
        (fst (Tick (1/60) (LoadingEngine 99) InitialSubsystem)))
   \<and> bIsDisplayingLoadingScreen (fst (Tick (1/60) (LoadingEngine 99) InitialSubsystem))
   \<and> HoldLoadingScreenTime (EditorEngine 100) = 0
   \<and> fst (ShouldShowLoadingScreen (EditorEngine 100)
        (fst (Tick (1/60) (LoadingEngine 99) InitialSubsystem))) = False
   \<and> \<not> bIsDisplayingLoadingScreen
        (fst (UpdateLoadingScreen (EditorEngine 100)
           (fst (Tick (1/60) (LoadingEngine 99) InitialSubsystem))))"
  using editor_skips_hold
          [of "EditorEngine 100" "fst (Tick (1/60) (LoadingEngine 99) InitialSubsystem)"]
  by (simp add: engine_defs subsystem_defs)

subsection \<open>The timestamp and the displayed flag\<close>

text \<open>
  Claim C6 says that in every reachable state a timestamp implies a displayed loading
  screen inside its hold. The code resets the timestamp only when a blocking reason is
  found, so the timestamp outlives the hold. From the initial state: a tick while the
  world is loading (clock 100), a tick when it is ready (clock 101, the hold of two
  seconds starts), a tick at clock 104. The timestamp is still 101, three seconds have
  passed, and the loading screen is hidden.
\<close>

theorem timestamp_outlives_hold_counterexample:
  "LoadingScreenLastDismissedTimestamp
     (fst (session [CallTick (1/60) (LoadingEngine 100), CallTick (1/60) (PlayingEngine 101),
                    CallTick (1/60) (PlayingEngine 104)] InitialSubsystem)) = 101
   \<and> \<not> bIsDisplayingLoadingScreen
     (fst (session [CallTick (1/60) (LoadingEngine 100), CallTick (1/60) (PlayingEngine 101),
                    CallTick (1/60) (PlayingEngine 104)] InitialSubsystem))
   \<and> \<not> (DoubleMinus (PlayingEngine 104) (Seconds (PlayingEngine 104)) 101
          < HoldLoadingScreenTime (PlayingEngine 104))"
  by (simp add: engine_defs subsystem_defs)

text \<open>
  Claim C6, amended. Take any state reached from the initial state by a sequence of calls
  and evaluate once more (\<^verbatim>\<open>UpdateLoadingScreen\<close>, as a tick or the pre-load hook does) at a
  clock reading that is not negative. If the evaluation finds a blocking reason, the
  state afterwards has no timestamp (\<open>-1\<close>) and the loading screen is displayed. If it
  finds none, the state afterwards has a timestamp: the clock reading of this evaluation
  when there was none before, and otherwise the one already stored, unchanged, whether
  the hold has elapsed or not; and the loading screen is displayed exactly when the
  controller is inside its hold, that is when the hold time after the editor override is
  positive and the elapsed time the code computes from the timestamp is below it. So a
  timestamp implies a displayed screen only while the hold lasts; after it the screen is
  hidden and the timestamp stays.
\<close>

theorem timestamp_after_update:
  assumes "0 \<le> Seconds e"
  shows "(if fst (CheckForDisplayReason e (fst (session cs InitialSubsystem)))
          then LoadingScreenLastDismissedTimestamp
                 (fst (UpdateLoadingScreen e (fst (session cs InitialSubsystem)))) = - 1
               \<and> bIsDisplayingLoadingScreen
                   (fst (UpdateLoadingScreen e (fst (session cs InitialSubsystem))))
          else LoadingScreenLastDismissedTimestamp
                 (fst (UpdateLoadingScreen e (fst (session cs InitialSubsystem))))
               = (if LoadingScreenLastDismissedTimestamp (fst (session cs InitialSubsystem)) < 0
                  then Seconds e
                  else LoadingScreenLastDismissedTimestamp (fst (session cs InitialSubsystem)))
               \<and> \<not> LoadingScreenLastDismissedTimestamp
                     (fst (UpdateLoadingScreen e (fst (session cs InitialSubsystem)))) < 0
               \<and> bIsDisplayingLoadingScreen
                   (fst (UpdateLoadingScreen e (fst (session cs InitialSubsystem))))
                 = (0 < HoldLoadingScreenTime e
                    \<and> DoubleMinus e (Seconds e)
                         (LoadingScreenLastDismissedTimestamp
                            (fst (UpdateLoadingScreen e (fst (session cs InitialSubsystem)))))
                        < HoldLoadingScreenTime e))"
proof (cases "fst (CheckForDisplayReason e (fst (session cs InitialSubsystem)))")
  case True
  then show ?thesis
    by (simp add: UpdateLoadingScreen_fields ShouldShowLoadingScreen_blocked)
next
  case False
  with assms show ?thesis
    by (simp add: UpdateLoadingScreen_fields ShouldShowLoadingScreen_clear Let_def)
qed

text \<open>
  The witness: after the world was loading at clock 100 and ready at clock 101, an
  evaluation at clock 102 is inside the hold (timestamp 101, displayed) and one at clock
  104 is after it (timestamp still 101, hidden).
\<close>

theorem timestamp_after_update_witness:
  "0 \<le> Seconds (PlayingEngine 102) \<and> 0 \<le> Seconds (PlayingEngine 104)
   \<and> \<not> fst (CheckForDisplayReason (PlayingEngine 104)
        (fst (session [CallTick (1/60) (LoadingEngine 100), CallTick (1/60) (PlayingEngine 101)]
                InitialSubsystem)))
   \<and> LoadingScreenLastDismissedTimestamp
        (fst (UpdateLoadingScreen (PlayingEngine 102)
           (fst (session [CallTick (1/60) (LoadingEngine 100), CallTick (1/60) (PlayingEngine 101)]
                   InitialSubsystem)))) = 101
   \<and> bIsDisplayingLoadingScreen
        (fst (UpdateLoadingScreen (PlayingEngine 102)
           (fst (session [CallTick (1/60) (LoadingEngine 100), CallTick (1/60) (PlayingEngine 101)]
                   InitialSubsystem))))
   \<and> LoadingScreenLastDismissedTimestamp
        (fst (UpdateLoadingScreen (PlayingEngine 104)
           (fst (session [CallTick (1/60) (LoadingEngine 100), CallTick (1/60) (PlayingEngine 101)]
                   InitialSubsystem)))) = 101
   \<and> \<not> bIsDisplayingLoadingScreen
        (fst (UpdateLoadingScreen (PlayingEngine 104)
           (fst (session [CallTick (1/60) (LoadingEngine 100), CallTick (1/60) (PlayingEngine 101)]
                   InitialSubsystem))))"
  using timestamp_after_update
          [of "PlayingEngine 102"
              "[CallTick (1/60) (LoadingEngine 100), CallTick (1/60) (PlayingEngine 101)]"]
        timestamp_after_update
          [of "PlayingEngine 104"
              "[CallTick (1/60) (LoadingEngine 100), CallTick (1/60) (PlayingEngine 101)]"]
  by (simp add: engine_defs subsystem_defs)

subsection \<open>Waiting for the additional time\<close>

text \<open>
  Claim C7. In every state the subsystem reaches from its initial state by calls made
  under a positive clock, and for every settings, \<^verbatim>\<open>IsWaitingForAdditionalTime\<close> is true
  exactly when the loading screen is displayed, a timestamp is stored (the value is not
  negative, which is how \<^verbatim>\<open>ShouldShowLoadingScreen\<close> reads the field) and the configured
  \<^verbatim>\<open>HoldLoadingScreenAdditionalSecs\<close> is above zero. The function itself asks for a
  timestamp above zero; the two readings of the field agree because a stored timestamp is
  a clock reading and never zero.
\<close>

theorem IsWaitingForAdditionalTime_reachable:
  assumes "\<forall>c \<in> set cs. platform_clock c"
  shows "IsWaitingForAdditionalTime e (fst (session cs InitialSubsystem))
       = (bIsDisplayingLoadingScreen (fst (session cs InitialSubsystem))
          \<and> \<not> LoadingScreenLastDismissedTimestamp (fst (session cs InitialSubsystem)) < 0
          \<and> 0 < HoldLoadingScreenAdditionalSecs (Settings e))"
proof -
  have "LoadingScreenLastDismissedTimestamp InitialSubsystem \<noteq> 0"
    by (simp add: InitialSubsystem_def)
  from session_timestamp_nonzero [OF this assms]
  have "LoadingScreenLastDismissedTimestamp (fst (session cs InitialSubsystem)) \<noteq> 0" .
  then show ?thesis
    by (auto simp: IsWaitingForAdditionalTime_iff)
qed

text \<open>
  The witness: the world was loading at clock 99 and is ready at clock 100; asked at
  clock 101 the subsystem is waiting (displayed, timestamp 100, two seconds configured).
\<close>

theorem IsWaitingForAdditionalTime_reachable_witness:
  "platform_clock (CallTick (1/60) (LoadingEngine 99))
   \<and> platform_clock (CallTick (1/60) (PlayingEngine 100))
   \<and> IsWaitingForAdditionalTime (PlayingEngine 101)
       (fst (session [CallTick (1/60) (LoadingEngine 99), CallTick (1/60) (PlayingEngine 100)]
               InitialSubsystem))
   \<and> bIsDisplayingLoadingScreen
       (fst (session [CallTick (1/60) (LoadingEngine 99), CallTick (1/60) (PlayingEngine 100)]
               InitialSubsystem))
   \<and> \<not> LoadingScreenLastDismissedTimestamp
       (fst (session [CallTick (1/60) (LoadingEngine 99), CallTick (1/60) (PlayingEngine 100)]
               InitialSubsystem)) < 0
   \<and> 0 < HoldLoadingScreenAdditionalSecs (Settings (PlayingEngine 101))"
  using IsWaitingForAdditionalTime_reachable
          [of "[CallTick (1/60) (LoadingEngine 99), CallTick (1/60) (PlayingEngine 100)]"
              "PlayingEngine 101"]
  by (simp add: engine_defs subsystem_defs)

subsection \<open>Repeating an evaluation\<close>

text \<open>
  Claim C8. Running \<^verbatim>\<open>UpdateLoadingScreen\<close> a second time on the state the first run left,
  with the same engine answers, broadcasts no visibility change and leaves the state as
  it is. \<^verbatim>\<open>ShowLoadingScreen\<close> on a displayed screen and \<^verbatim>\<open>HideLoadingScreen\<close> on a hidden one
  return the state unchanged and do nothing to the outside.
\<close>

theorem UpdateLoadingScreen_idempotent:
  "filter is_visibility (snd (UpdateLoadingScreen e (fst (UpdateLoadingScreen e s)))) = []
   \<and> fst (UpdateLoadingScreen e (fst (UpdateLoadingScreen e s)))
       = fst (UpdateLoadingScreen e s)
   \<and> (bIsDisplayingLoadingScreen s \<longrightarrow> ShowLoadingScreen e s = (s, []))
   \<and> (\<not> bIsDisplayingLoadingScreen s \<longrightarrow> HideLoadingScreen e s = (s, []))"
proof -
  let ?s1 = "fst (UpdateLoadingScreen e s)"
  have same: "fst (UpdateLoadingScreen e ?s1) = ?s1"
    by (rule UpdateLoadingScreen_twice)
  have "bIsDisplayingLoadingScreen (fst (UpdateLoadingScreen e ?s1))
      = fst (ShouldShowLoadingScreen e ?s1)"
    by (rule UpdateLoadingScreen_fields(1))
  with same have "fst (ShouldShowLoadingScreen e ?s1) = bIsDisplayingLoadingScreen ?s1"
    by simp
  then have "filter is_visibility (snd (UpdateLoadingScreen e ?s1)) = []"
    by (simp add: UpdateLoadingScreen_fields(7))
  with same show ?thesis
    by (simp add: ShowLoadingScreen_def HideLoadingScreen_def)
qed

theorem UpdateLoadingScreen_idempotent_witness:
  "filter is_visibility
     (snd (UpdateLoadingScreen (LoadingEngine 100)
             (fst (UpdateLoadingScreen (LoadingEngine 100) InitialSubsystem)))) = []
   \<and> bIsDisplayingLoadingScreen (fst (UpdateLoadingScreen (LoadingEngine 100) InitialSubsystem))
   \<and> ShowLoadingScreen (LoadingEngine 100)
        (fst (UpdateLoadingScreen (LoadingEngine 100) InitialSubsystem))
      = (fst (UpdateLoadingScreen (LoadingEngine 100) InitialSubsystem), [])
   \<and> \<not> bIsDisplayingLoadingScreen InitialSubsystem
   \<and> HideLoadingScreen (PlayingEngine 100) InitialSubsystem = (InitialSubsystem, [])"
  using UpdateLoadingScreen_idempotent [of "LoadingEngine 100" InitialSubsystem]
    UpdateLoadingScreen_idempotent
      [of "LoadingEngine 100" "fst (UpdateLoadingScreen (LoadingEngine 100) InitialSubsystem)"]
    UpdateLoadingScreen_idempotent [of "PlayingEngine 100" InitialSubsystem]
  by (simp add: engine_defs subsystem_defs)

subsection \<open>The command of game logic\<close>

text \<open>
  Claim C9. \<^verbatim>\<open>ForceDisplayStateByGameLogic\<close> stores its two arguments and nothing else: the
  displayed flag, the state reason, the timestamp and the widget are as before, the call
  does nothing to the outside (no broadcast, no evaluation), and the stored flag is what
  the fifth check of the next \<^verbatim>\<open>CheckForDisplayReason\<close> reads.
\<close>

theorem ForceDisplayStateByGameLogic_frame:
  "bIsDisplayingLoadingScreen (ForceDisplayStateByGameLogic v r s)
     = bIsDisplayingLoadingScreen s
   \<and> LoadingScreenStateReason (ForceDisplayStateByGameLogic v r s) = LoadingScreenStateReason s
   \<and> LoadingScreenLastDismissedTimestamp (ForceDisplayStateByGameLogic v r s)
       = LoadingScreenLastDismissedTimestamp s
   \<and> LoadingScreenWidget (ForceDisplayStateByGameLogic v r s) = LoadingScreenWidget s
   \<and> bIsDisplayedByGameLogic (ForceDisplayStateByGameLogic v r s) = v
   \<and> UserSpecifiedLoadingScreenReason (ForceDisplayStateByGameLogic v r s) = r
   \<and> IsLoadingScreenDisplayed (ForceDisplayStateByGameLogic v r s) = IsLoadingScreenDisplayed s
   \<and> perform (CallForceDisplay v r) s = (ForceDisplayStateByGameLogic v r s, [])
   \<and> fst (CheckForDisplayReason e (ForceDisplayStateByGameLogic v r s))
       = (bForceDisplayLoadingScreen (Settings e)
          \<or> GetWorldContext e = None
          \<or> GetWorldContext e = Some (FWorldContext None)
          \<or> GetWorldContext e = Some (FWorldContext (Some (UWorld False)))
          \<or> v)"
  by (simp add: CheckForDisplayReason_fst)
     (simp add: ForceDisplayStateByGameLogic_def IsLoadingScreenDisplayed_def)

subsection \<open>A hold of zero seconds\<close>

text \<open>
  Claim C10. When the hold time is zero (configured as zero, or set to zero by the editor
  override), the first evaluation that finds no blocking reason after one was present
  stores the clock reading as the timestamp, broadcasts \<^verbatim>\<open>OnHoldTimeTriggeredDelegate\<close> with
  the value zero and returns false; \<^verbatim>\<open>UpdateLoadingScreen\<close> hides the screen in the same
  call, so a listener sees the hold-time broadcast and right after it the visibility
  broadcast of false.
\<close>

theorem zero_hold_still_broadcasts:
  assumes "HoldLoadingScreenAdditionalSecs (Settings e) = 0
           \<or> (GIsEditor e \<and> bShowLoadingScreenAdditionalSecsInEditor (Settings e) = False)"
    and "LoadingScreenLastDismissedTimestamp s < 0"
    and "\<not> fst (CheckForDisplayReason e s)"
  shows "ShouldShowLoadingScreen e s =
           (False,
            s\<lparr> LoadingScreenStateReason := ''No reason to display.'',
               LoadingScreenLastDismissedTimestamp := Seconds e \<rparr>,
            [OnHoldTimeTriggered 0])
       \<and> \<not> bIsDisplayingLoadingScreen (fst (UpdateLoadingScreen e s))
       \<and> filter is_broadcast (snd (UpdateLoadingScreen e s)) =
           (if bIsDisplayingLoadingScreen s
            then [OnHoldTimeTriggered 0, OnVisibilityChanged False]
            else [OnHoldTimeTriggered 0])"
proof -
  have "HoldLoadingScreenTime e = 0"
    using assms(1) by (auto simp: HoldLoadingScreenTime_def)
  with assms(2,3) show ?thesis
    by (simp add: UpdateLoadingScreen_fields ShouldShowLoadingScreen_clear Let_def)
qed

theorem zero_hold_still_broadcasts_witness:
  "LoadingScreenLastDismissedTimestamp (fst (Tick (1/60) (LoadingEngine 99) InitialSubsystem)) < 0
   \<and> \<not> fst (CheckForDisplayReason (EditorEngine 100)
               (fst (Tick (1/60) (LoadingEngine 99) InitialSubsystem)))
   \<and> fst (ShouldShowLoadingScreen (EditorEngine 100)
            (fst (Tick (1/60) (LoadingEngine 99) InitialSubsystem))) = False
   \<and> filter is_broadcast
       (snd (UpdateLoadingScreen (EditorEngine 100)
               (fst (Tick (1/60) (LoadingEngine 99) InitialSubsystem))))
     = [OnHoldTimeTriggered 0, OnVisibilityChanged False]"
  using zero_hold_still_broadcasts
          [of "EditorEngine 100" "fst (Tick (1/60) (LoadingEngine 99) InitialSubsystem)"]
  by (simp add: engine_defs subsystem_defs)

end
